theory Spec2Isabelle
  imports Complex_Main
begin

section \<open>JavaScript numbers\<close>

text \<open>
  The generators of \<^verbatim>\<open>utils/noise\<close> compute with JavaScript numbers. Finite numbers are
  modelled by the reals (no rounding, no overflow); the three special values are kept
  apart, because the code can produce and compare them: \<^verbatim>\<open>0/0\<close> is \<^verbatim>\<open>NaN\<close>, and every
  comparison with \<^verbatim>\<open>NaN\<close> is false. Reading an array outside its range gives
  \<^verbatim>\<open>undefined\<close>, which the code only ever compares; a comparison converts it to
  \<^verbatim>\<open>NaN\<close>, so such a read is modelled as \<^verbatim>\<open>NaN\<close>.
  Numbers that the code uses as integers (coordinates, indices, counters, the state of
  the random generator) are modelled by \<^typ>\<open>int\<close>.
\<close>

datatype number = Num real | NaN | PosInfinity | NegInfinity

text \<open>The operator \<^verbatim>\<open><\<close>.\<close>

fun js_less :: "number \<Rightarrow> number \<Rightarrow> bool" where
  "js_less (Num a) (Num b) = (a < b)"
| "js_less NaN _ = False"
| "js_less _ NaN = False"
| "js_less NegInfinity NegInfinity = False"
| "js_less NegInfinity _ = True"
| "js_less PosInfinity _ = False"
| "js_less (Num a) PosInfinity = True"
| "js_less (Num a) NegInfinity = False"

text \<open>The operator \<^verbatim>\<open><=\<close>.\<close>

fun js_le :: "number \<Rightarrow> number \<Rightarrow> bool" where
  "js_le (Num a) (Num b) = (a \<le> b)"
| "js_le NaN _ = False"
| "js_le _ NaN = False"
| "js_le NegInfinity _ = True"
| "js_le PosInfinity PosInfinity = True"
| "js_le PosInfinity _ = False"
| "js_le (Num a) PosInfinity = True"
| "js_le (Num a) NegInfinity = False"

text \<open>The operator \<^verbatim>\<open>/\<close> on two finite numbers.\<close>

definition js_div :: "real \<Rightarrow> real \<Rightarrow> number" where
  "js_div a b =
     (if b \<noteq> 0 then Num (a / b)
      else if a = 0 then NaN
      else if 0 < a then PosInfinity else NegInfinity)"

text \<open>
  The operator \<^verbatim>\<open>%\<close> on integers with a non-zero divisor: the remainder has the sign of
  the dividend.
\<close>

definition js_rem :: "int \<Rightarrow> int \<Rightarrow> int" where
  "js_rem a b = sgn a * (\<bar>a\<bar> mod \<bar>b\<bar>)"

text \<open>An array read \<^verbatim>\<open>a[i]\<close>.\<close>

definition array_get :: "number list \<Rightarrow> int \<Rightarrow> number" where
  "array_get a i = (if 0 \<le> i \<and> i < int (length a) then a ! nat i else NaN)"

section \<open>The seeded random generator\<close>

text \<open>
  \<^verbatim>\<open>createRandom(seed)\<close> returns a closure over the variable \<^verbatim>\<open>state\<close>, which starts as
  the seed. Each call replaces the state by
  \<^verbatim>\<open>(state * 1664525 + 1013904223) % 4294967296\<close> and returns \<^verbatim>\<open>state / 4294967296\<close>.
  The three generators always pass the seed, so the default value of the parameter is not
  modelled. \<open>createRandom\<close> gives the first state, \<open>lcg\<close> the next state, and
  \<open>random_value\<close> the number returned for a state.
\<close>

definition createRandom :: "int \<Rightarrow> int" where
  "createRandom seed = seed"

definition lcg :: "int \<Rightarrow> int" where
  "lcg s = js_rem (s * 1664525 + 1013904223) 4294967296"

definition random_value :: "int \<Rightarrow> real" where
  "random_value s = real_of_int s / 4294967296"

text \<open>
  The variables that \<^verbatim>\<open>generateRivers\<close> and \<^verbatim>\<open>placeCities\<close> both have: the array
  \<^verbatim>\<open>noiseMap\<close> they are given, the state of their random generator, and a counter
  \<^verbatim>\<open>attempts\<close>. A function of the model takes the variables and returns them updated.
\<close>

record prog =
  noiseMap :: "number list"
  state :: int
  attempts :: int

text \<open>A call \<^verbatim>\<open>random()\<close>: the number returned, and the variables after the call.\<close>

definition random :: "'a prog_scheme \<Rightarrow> real \<times> 'a prog_scheme" where
  "random v = (random_value (lcg (state v)), v\<lparr>state := lcg (state v)\<rparr>)"

text \<open>\<^verbatim>\<open>Math.floor(random() * n)\<close>, the number drawn.\<close>

definition random_below :: "'a prog_scheme \<Rightarrow> int \<Rightarrow> int" where
  "random_below v n = \<lfloor>fst (random v) * real_of_int n\<rfloor>"

section \<open>generateRivers\<close>

record river_vars = prog +
  rivers :: "int list list"
  startX :: int
  startY :: int
  river :: "int list"
  currentX :: int
  currentY :: int
  terminated :: bool

definition getIndex :: "int \<Rightarrow> int \<Rightarrow> int \<Rightarrow> int" where
  "getIndex width x y = y * width + x"

definition getHeight :: "number list \<Rightarrow> int \<Rightarrow> int \<Rightarrow> int \<Rightarrow> int \<Rightarrow> number" where
  "getHeight nm width height x y =
     (if x < 0 \<or> width \<le> x \<or> y < 0 \<or> height \<le> y then Num 1
      else array_get nm (getIndex width x y))"

text \<open>
  The body of the \<^verbatim>\<open>do ... while\<close> loop that looks for a start point, and the loop's
  condition.
\<close>

definition sample_start :: "int \<Rightarrow> int \<Rightarrow> river_vars \<Rightarrow> river_vars" where
  "sample_start width height v =
     (let v1 = (snd (random v))\<lparr>startX := random_below v width\<rparr>;
          v2 = (snd (random v1))\<lparr>startY := random_below v1 height\<rparr>
      in v2\<lparr>attempts := attempts v2 + 1\<rparr>)"

definition search_again :: "int \<Rightarrow> int \<Rightarrow> river_vars \<Rightarrow> bool" where
  "search_again width height v =
     ((js_less (getHeight (noiseMap v) width height (startX v) (startY v)) (Num 0.6) \<or>
       js_less (Num 0.8) (getHeight (noiseMap v) width height (startX v) (startY v))) \<and>
      attempts v < 100)"

function find_start :: "int \<Rightarrow> int \<Rightarrow> river_vars \<Rightarrow> river_vars" where
  "find_start width height v =
     (if search_again width height (sample_start width height v)
      then find_start width height (sample_start width height v)
      else sample_start width height v)"
  by pat_completeness auto
termination
  by (relation "measure (\<lambda>(width, height, v). nat (100 - attempts v))")
     (auto simp: search_again_def sample_start_def random_def Let_def)

declare find_start.simps [simp del]

text \<open>
  The scan of the eight neighbours of the current cell: \<^verbatim>\<open>ny\<close> runs in the outer
  loop, \<^verbatim>\<open>nx\<close> in the inner one, and the cell itself is skipped. The scan carries
  \<^verbatim>\<open>lowestX\<close>, \<^verbatim>\<open>lowestY\<close> and \<^verbatim>\<open>lowestHeight\<close>.
\<close>

definition neighbor_offsets :: "(int \<times> int) list" where
  "neighbor_offsets = concat (map (\<lambda>ny. map (\<lambda>nx. (nx, ny)) [-1, 0, 1]) [-1, 0, 1])"

definition neighbor_step ::
  "number list \<Rightarrow> int \<Rightarrow> int \<Rightarrow> int \<Rightarrow> int \<Rightarrow> int \<times> int \<Rightarrow> int \<times> int \<times> number \<Rightarrow> int \<times> int \<times> number" where
  "neighbor_step nm width height cx cy off low =
     (if fst off = 0 \<and> snd off = 0 then low
      else if js_less (getHeight nm width height (cx + fst off) (cy + snd off)) (snd (snd low))
      then (cx + fst off, cy + snd off, getHeight nm width height (cx + fst off) (cy + snd off))
      else low)"

definition lowest_neighbor ::
  "number list \<Rightarrow> int \<Rightarrow> int \<Rightarrow> int \<Rightarrow> int \<Rightarrow> int \<times> int \<times> number" where
  "lowest_neighbor nm width height cx cy =
     fold (neighbor_step nm width height cx cy) neighbor_offsets
       (cx, cy, getHeight nm width height cx cy)"

text \<open>The test \<^verbatim>\<open>currentX < 0 || currentX >= width || currentY < 0 || currentY >= height\<close>.\<close>

definition out_of_bounds :: "int \<Rightarrow> int \<Rightarrow> int \<Rightarrow> int \<Rightarrow> bool" where
  "out_of_bounds width height x y = (x < 0 \<or> width \<le> x \<or> y < 0 \<or> height \<le> y)"

text \<open>The body of the \<^verbatim>\<open>while\<close> loop that walks downhill.\<close>

definition walk_body :: "int \<Rightarrow> int \<Rightarrow> river_vars \<Rightarrow> river_vars" where
  "walk_body width height v =
     (let low = lowest_neighbor (noiseMap v) width height (currentX v) (currentY v);
          lowestX = fst low;
          lowestY = fst (snd low)
      in if lowestX = currentX v \<and> lowestY = currentY v then v\<lparr>terminated := True\<rparr>
         else if out_of_bounds width height lowestX lowestY
         then v\<lparr>currentX := lowestX, currentY := lowestY, terminated := True\<rparr>
         else if getIndex width lowestX lowestY \<in> set (river v)
         then v\<lparr>currentX := lowestX, currentY := lowestY, terminated := True\<rparr>
         else v\<lparr>currentX := lowestX, currentY := lowestY,
                 river := river v @ [getIndex width lowestX lowestY]\<rparr>)"

function walk :: "int \<Rightarrow> int \<Rightarrow> river_vars \<Rightarrow> river_vars" where
  "walk width height v =
     (if \<not> terminated v \<and> length (river v) < 1000
      then walk width height (walk_body width height v)
      else v)"
  by pat_completeness auto
termination
  by (relation "measure (\<lambda>(width, height, v).
        (if terminated v then 0 else 1) + (1000 - length (river v)))")
     (auto simp: walk_body_def Let_def)

declare walk.simps [simp del]

text \<open>The body of the \<^verbatim>\<open>for\<close> loop: one river attempt.\<close>

definition river_attempt :: "int \<Rightarrow> int \<Rightarrow> int \<Rightarrow> river_vars \<Rightarrow> river_vars" where
  "river_attempt width height minRiverLength v =
     (let v1 = (snd (random v))\<lparr>startX := random_below v width\<rparr>;
          v2 = (snd (random v1))\<lparr>startY := random_below v1 height\<rparr>;
          v3 = find_start width height (v2\<lparr>attempts := 0\<rparr>)
      in if 100 \<le> attempts v3 then v3
         else
           let v4 = walk width height
                      (v3\<lparr>river := [getIndex width (startX v3) (startY v3)],
                          currentX := startX v3, currentY := startY v3,
                          terminated := False\<rparr>)
           in if minRiverLength \<le> int (length (river v4))
              then v4\<lparr>rivers := rivers v4 @ [river v4]\<rparr>
              else v4)"

function rivers_loop :: "int \<Rightarrow> int \<Rightarrow> int \<Rightarrow> int \<Rightarrow> int \<Rightarrow> river_vars \<Rightarrow> river_vars" where
  "rivers_loop width height riverCount minRiverLength r v =
     (if r < riverCount
      then rivers_loop width height riverCount minRiverLength (r + 1)
             (river_attempt width height minRiverLength v)
      else v)"
  by pat_completeness auto
termination
  by (relation "measure (\<lambda>(width, height, riverCount, minRiverLength, r, v). nat (riverCount - r))")
     auto

declare rivers_loop.simps [simp del]

text \<open>
  \<^verbatim>\<open>generateRivers(noiseMap, width, height, seed, riverCount, minRiverLength)\<close>. The
  value the function returns is the field \<^const>\<open>rivers\<close> of the result; the field
  \<^const>\<open>noiseMap\<close> is the caller's array after the call. The arrays \<^verbatim>\<open>rivers\<close> and
  \<^verbatim>\<open>river\<close> are created by the function itself. The variables that the code declares
  inside the loop are given a value here at the start; the code assigns each of them
  before it reads it.
\<close>

definition generateRivers ::
  "number list \<Rightarrow> int \<Rightarrow> int \<Rightarrow> int \<Rightarrow> int \<Rightarrow> int \<Rightarrow> river_vars" where
  "generateRivers nm width height seed riverCount minRiverLength =
     rivers_loop width height riverCount minRiverLength 0
       \<lparr>noiseMap = nm, state = createRandom seed, attempts = 0, rivers = [],
        startX = 0, startY = 0, river = [], currentX = 0, currentY = 0,
        terminated = False\<rparr>"

section \<open>placeCities\<close>

text \<open>A city \<^verbatim>\<open>{ x, y, size }\<close>.\<close>

datatype city = City (city_x: int) (city_y: int) (city_size: real)

record city_vars = prog +
  cities :: "city list"

text \<open>
  \<^verbatim>\<open>isNearRiver(x, y, distance)\<close>, over the set \<^verbatim>\<open>riverPoints\<close>: some cell of the square
  around \<^verbatim>\<open>(x, y)\<close> is inside the grid and is a river point.
\<close>

definition isNearRiver :: "int set \<Rightarrow> int \<Rightarrow> int \<Rightarrow> int \<Rightarrow> int \<Rightarrow> int \<Rightarrow> bool" where
  "isNearRiver riverPoints width height x y distance =
     list_ex (\<lambda>ny. list_ex (\<lambda>nx.
         \<not> (x + nx < 0 \<or> width \<le> x + nx \<or> y + ny < 0 \<or> height \<le> y + ny) \<and>
         (y + ny) * width + (x + nx) \<in> riverPoints)
       [- distance .. distance]) [- distance .. distance]"

text \<open>
  The loop over the cities placed so far: some city is at a distance below
  \<^verbatim>\<open>width / 10\<close> of \<^verbatim>\<open>(x, y)\<close>.
\<close>

definition tooClose :: "int \<Rightarrow> int \<Rightarrow> int \<Rightarrow> city list \<Rightarrow> bool" where
  "tooClose width x y cs =
     list_ex (\<lambda>c. sqrt ((real_of_int (city_x c - x))\<^sup>2 + (real_of_int (city_y c - y))\<^sup>2)
                   < real_of_int width / 10) cs"

text \<open>The size of a new city, from the number \<^verbatim>\<open>random()\<close> returned.\<close>

definition new_size :: "real \<Rightarrow> bool \<Rightarrow> number \<Rightarrow> real" where
  "new_size r nearRiver terrainHeight =
     (1 + r * 2) + (if nearRiver then 1 else 0) +
     (if js_less (Num 0.4) terrainHeight \<and> js_less terrainHeight (Num 0.6) then 0.5 else 0)"

text \<open>
  The body of the \<^verbatim>\<open>while\<close> loop. In \<^verbatim>\<open>!nearRiver && random() < 0.7\<close> the generator is
  called only when the point is not near a river.
\<close>

definition place_attempt :: "int set \<Rightarrow> int \<Rightarrow> int \<Rightarrow> city_vars \<Rightarrow> city_vars" where
  "place_attempt riverPoints width height v =
     (let v1 = v\<lparr>attempts := attempts v + 1\<rparr>;
          x = random_below v1 width;
          v2 = snd (random v1);
          y = random_below v2 height;
          v3 = snd (random v2);
          terrainHeight = array_get (noiseMap v3) (y * width + x)
      in if js_less terrainHeight (Num 0.3) \<or> js_less (Num 0.7) terrainHeight then v3
         else
           let nearRiver = isNearRiver riverPoints width height x y 3;
               v4 = (if nearRiver then v3 else snd (random v3))
           in if \<not> nearRiver \<and> fst (random v3) < 0.7 then v4
              else if tooClose width x y (cities v4) then v4
              else (snd (random v4))
                     \<lparr>cities := cities v4 @
                        [City x y (new_size (fst (random v4)) nearRiver terrainHeight)]\<rparr>)"

function place_loop :: "int set \<Rightarrow> int \<Rightarrow> int \<Rightarrow> int \<Rightarrow> city_vars \<Rightarrow> city_vars" where
  "place_loop riverPoints width height cityCount v =
     (if int (length (cities v)) < cityCount \<and> attempts v < cityCount * 10
      then place_loop riverPoints width height cityCount
             (place_attempt riverPoints width height v)
      else v)"
  by pat_completeness auto
termination
  by (relation "measure (\<lambda>(riverPoints, width, height, cityCount, v).
        nat (cityCount * 10 - attempts v))")
     (auto simp: place_attempt_def random_def Let_def)

declare place_loop.simps [simp del]

text \<open>
  \<^verbatim>\<open>placeCities(noiseMap, rivers, width, height, seed, cityCount)\<close>. The value the function
  returns is the field \<^const>\<open>cities\<close> of the result; \<^verbatim>\<open>riverPoints\<close> is
  \<^verbatim>\<open>new Set(rivers.flat())\<close>.
\<close>

definition placeCities ::
  "number list \<Rightarrow> int list list \<Rightarrow> int \<Rightarrow> int \<Rightarrow> int \<Rightarrow> int \<Rightarrow> city_vars" where
  "placeCities nm rvs width height seed cityCount =
     place_loop (set (concat rvs)) width height cityCount
       \<lparr>noiseMap = nm, state = createRandom seed, attempts = 0, cities = []\<rparr>"

section \<open>generateNoiseMap\<close>

text \<open>
  \<^verbatim>\<open>Number.MIN_VALUE\<close> is the smallest positive number, \<^verbatim>\<open>Number.MAX_VALUE\<close> the largest
  finite one.
\<close>

definition Number_MIN_VALUE :: real where
  "Number_MIN_VALUE = 1 / 2 ^ 1074"

definition Number_MAX_VALUE :: real where
  "Number_MAX_VALUE = (2 ^ 53 - 1) * 2 ^ 971"

text \<open>
  \<^verbatim>\<open>octaveOffsets\<close>: for each octave, two calls of the generator, \<^verbatim>\<open>x\<close> first; the argument
  is the state of the generator before the first call.
\<close>

fun octaveOffsets :: "nat \<Rightarrow> int \<Rightarrow> (real \<times> real) list" where
  "octaveOffsets 0 s = []"
| "octaveOffsets (Suc n) s =
     (random_value (lcg s) * 100000, random_value (lcg (lcg s)) * 100000)
       # octaveOffsets n (lcg (lcg s))"

text \<open>
  The loop over the octaves for the cell \<^verbatim>\<open>(x, y)\<close>, carrying \<^verbatim>\<open>amplitude\<close>,
  \<^verbatim>\<open>frequency\<close> and \<^verbatim>\<open>noiseHeight\<close>; the list holds the offsets of the octaves still to
  come.
\<close>

fun octave_loop ::
  "(real \<Rightarrow> real \<Rightarrow> real) \<Rightarrow> real \<Rightarrow> real \<Rightarrow> real \<Rightarrow> real \<Rightarrow> real \<Rightarrow>
   (real \<times> real) list \<Rightarrow> real \<Rightarrow> real \<Rightarrow> real \<Rightarrow> real" where
  "octave_loop noise2D scale persistence lacunarity x y [] amplitude frequency noiseHeight =
     noiseHeight"
| "octave_loop noise2D scale persistence lacunarity x y (off # offs) amplitude frequency noiseHeight =
     octave_loop noise2D scale persistence lacunarity x y offs
       (amplitude * persistence) (frequency * lacunarity)
       (noiseHeight +
          noise2D ((x / scale) * frequency + fst off) ((y / scale) * frequency + snd off)
            * amplitude)"

text \<open>
  The body of the two loops over the cells, on the array and the two tracked values
  \<^verbatim>\<open>maxNoiseHeight\<close> and \<^verbatim>\<open>minNoiseHeight\<close>; the cells are visited row by row.
\<close>

definition cell_step ::
  "(real \<Rightarrow> real \<Rightarrow> real) \<Rightarrow> real \<Rightarrow> real \<Rightarrow> real \<Rightarrow> (real \<times> real) list \<Rightarrow> nat \<Rightarrow>
   nat \<times> nat \<Rightarrow> real list \<times> real \<times> real \<Rightarrow> real list \<times> real \<times> real" where
  "cell_step noise2D scale persistence lacunarity offs width cell acc =
     (let noiseHeight =
            octave_loop noise2D scale persistence lacunarity
              (real (fst cell)) (real (snd cell)) offs 1 1 0
      in ((fst acc)[snd cell * width + fst cell := noiseHeight],
          max (fst (snd acc)) noiseHeight,
          min (snd (snd acc)) noiseHeight))"

definition grid_cells :: "nat \<Rightarrow> nat \<Rightarrow> (nat \<times> nat) list" where
  "grid_cells width height = concat (map (\<lambda>y. map (\<lambda>x. (x, y)) [0..<width]) [0..<height])"

text \<open>
  The first pass: the raw array with the tracked maximum and minimum. The package
  \<^verbatim>\<open>simplex-noise\<close> is not part of the repository: \<^verbatim>\<open>createNoise2D\<close> is a parameter, a
  function from the state of the generator it is given to the noise function it returns
  and the state it leaves.
\<close>

definition raw_noise ::
  "(int \<Rightarrow> (real \<Rightarrow> real \<Rightarrow> real) \<times> int) \<Rightarrow> nat \<Rightarrow> nat \<Rightarrow> int \<Rightarrow> real \<Rightarrow> nat \<Rightarrow> real \<Rightarrow> real \<Rightarrow>
   real list \<times> real \<times> real" where
  "raw_noise createNoise2D width height seed scale octaves persistence lacunarity =
     (let made = createNoise2D (createRandom seed);
          scale1 = (if scale \<le> 0 then 0.0001 else scale)
      in fold (cell_step (fst made) scale1 persistence lacunarity
                 (octaveOffsets octaves (snd made)) width)
           (grid_cells width height)
           (replicate (width * height) 0, Number_MIN_VALUE, Number_MAX_VALUE))"

text \<open>
  \<^verbatim>\<open>generateNoiseMap(width, height, seed, scale, octaves, persistence, lacunarity)\<close>: the
  second pass divides every cell by the tracked range.
\<close>

definition generateNoiseMap ::
  "(int \<Rightarrow> (real \<Rightarrow> real \<Rightarrow> real) \<times> int) \<Rightarrow> nat \<Rightarrow> nat \<Rightarrow> int \<Rightarrow> real \<Rightarrow> nat \<Rightarrow> real \<Rightarrow> real \<Rightarrow>
   number list" where
  "generateNoiseMap createNoise2D width height seed scale octaves persistence lacunarity =
     (let raw = raw_noise createNoise2D width height seed scale octaves persistence lacunarity;
          maxNoiseHeight = fst (snd raw);
          minNoiseHeight = snd (snd raw)
      in map (\<lambda>c. js_div (c - minNoiseHeight) (maxNoiseHeight - minNoiseHeight)) (fst raw))"

section \<open>Predicates and inputs used in the proofs\<close>

text \<open>
  What the scan of the neighbours keeps true of \<^verbatim>\<open>lowestX\<close>, \<^verbatim>\<open>lowestY\<close>,
  \<^verbatim>\<open>lowestHeight\<close>: the height is the height of the cell, and the cell is the current one or
  strictly lower than it.
\<close>

definition low_ok ::
  "number list \<Rightarrow> int \<Rightarrow> int \<Rightarrow> int \<Rightarrow> int \<Rightarrow> int \<times> int \<times> number \<Rightarrow> bool" where
  "low_ok nm width height cx cy low =
     (snd (snd low) = getHeight nm width height (fst low) (fst (snd low)) \<and>
      ((fst low = cx \<and> fst (snd low) = cy) \<or>
       js_less (snd (snd low)) (getHeight nm width height cx cy)))"


text \<open>The invariant of the downhill walk.\<close>

definition walk_inv :: "int \<Rightarrow> int \<Rightarrow> river_vars \<Rightarrow> bool" where
  "walk_inv width height v =
     (river v \<noteq> [] \<and> distinct (river v) \<and>
      (\<forall>i \<in> set (river v). 0 \<le> i \<and> i < width * height) \<and>
      successively (\<lambda>a b. js_less (array_get (noiseMap v) b) (array_get (noiseMap v) a))
        (river v) \<and>
      (\<not> terminated v \<longrightarrow>
         \<not> out_of_bounds width height (currentX v) (currentY v) \<and>
         last (river v) = getIndex width (currentX v) (currentY v)))"

text \<open>What holds of every path that is kept.\<close>

definition good_path :: "number list \<Rightarrow> int \<Rightarrow> int \<Rightarrow> int \<Rightarrow> int list \<Rightarrow> bool" where
  "good_path nm width height minRiverLength p =
     (minRiverLength \<le> int (length p) \<and> p \<noteq> [] \<and> distinct p \<and>
      (\<forall>i \<in> set p. 0 \<le> i \<and> i < width * height) \<and>
      successively (\<lambda>a b. js_less (array_get nm b) (array_get nm a)) p)"



text \<open>
  Height fields for the examples: a strip of ten cells at height 0.7 with one cell at 0.65;
  a strip of a hundred cells at height 0 with one cell at 0.7; a square of a hundred cells
  at height 0.5.
\<close>

definition strip10 :: "number list" where
  "strip10 = (replicate 10 (Num 0.7))[2 := Num 0.65]"

definition strip100 :: "number list" where
  "strip100 = (replicate 100 (Num 0))[37 := Num 0.7]"


text \<open>
  Two instances of \<^verbatim>\<open>createNoise2D\<close> for the examples, which leave the generator as it
  is: a noise function that is constant, and one with two negative values.
\<close>

definition constant_noise :: "real \<Rightarrow> int \<Rightarrow> (real \<Rightarrow> real \<Rightarrow> real) \<times> int" where
  "constant_noise c s = (\<lambda>x y. c, s)"

definition step_noise :: "real \<Rightarrow> int \<Rightarrow> (real \<Rightarrow> real \<Rightarrow> real) \<times> int" where
  "step_noise t s = (\<lambda>x y. if x < t then - 1 / 2 else - 1 / 4, s)"

section \<open>Lemmas about generateRivers\<close>

lemma getIndex_in_range:
  assumes "\<not> out_of_bounds width height x y"
  shows "0 \<le> getIndex width x y \<and> getIndex width x y < width * height"
proof -
  have b: "0 \<le> x" "x < width" "0 \<le> y" "y + 1 \<le> height"
    using assms by (auto simp: out_of_bounds_def)
  have "y * width + x < (y + 1) * width" using b by (simp add: algebra_simps)
  also have "\<dots> \<le> height * width" using b by (intro mult_right_mono) auto
  finally have "getIndex width x y < width * height" by (simp add: getIndex_def mult.commute)
  moreover have "0 \<le> getIndex width x y" using b by (simp add: getIndex_def)
  ultimately show ?thesis by simp
qed

lemma js_less_trans: "js_less a b \<Longrightarrow> js_less b c \<Longrightarrow> js_less a c"
  by (cases a; cases b; cases c) auto

lemma js_less_imp_le: "js_less a b \<Longrightarrow> js_le a b"
  by (cases a; cases b) auto

lemma js_less_irrefl: "\<not> js_less a a"
  by (cases a) auto

lemma fold_invariant:
  "P s \<Longrightarrow> (\<And>x t. P t \<Longrightarrow> P (f x t)) \<Longrightarrow> P (fold f xs s)"
  by (induction xs arbitrary: s) auto

lemma low_ok_step:
  "low_ok nm width height cx cy low \<Longrightarrow>
   low_ok nm width height cx cy (neighbor_step nm width height cx cy off low)"
  by (auto simp: low_ok_def neighbor_step_def intro: js_less_trans)

lemma low_ok_lowest_neighbor:
  "low_ok nm width height cx cy (lowest_neighbor nm width height cx cy)"
  unfolding lowest_neighbor_def
  by (rule fold_invariant) (auto simp: low_ok_step, simp add: low_ok_def)

lemma noiseMap_random [simp]: "noiseMap (snd (random v)) = noiseMap v"
  by (simp add: random_def)

lemma noiseMap_sample_start [simp]: "noiseMap (sample_start width height v) = noiseMap v"
  by (simp add: sample_start_def Let_def)

lemma noiseMap_find_start [simp]: "noiseMap (find_start width height v) = noiseMap v"
  by (induction width height v rule: find_start.induct) (subst find_start.simps, simp)

lemma noiseMap_walk_body [simp]: "noiseMap (walk_body width height v) = noiseMap v"
  by (simp add: walk_body_def Let_def)

lemma noiseMap_walk [simp]: "noiseMap (walk width height v) = noiseMap v"
  by (induction width height v rule: walk.induct) (subst walk.simps, simp)

lemma noiseMap_river_attempt [simp]:
  "noiseMap (river_attempt width height minRiverLength v) = noiseMap v"
  by (simp add: river_attempt_def Let_def)

lemma noiseMap_rivers_loop [simp]:
  "noiseMap (rivers_loop width height riverCount minRiverLength r v) = noiseMap v"
  by (induction width height riverCount minRiverLength r v rule: rivers_loop.induct)
     (subst rivers_loop.simps, simp)


lemma rivers_random [simp]: "rivers (snd (random v)) = rivers v"
  by (simp add: random_def)

lemma rivers_sample_start [simp]: "rivers (sample_start width height v) = rivers v"
  by (simp add: sample_start_def Let_def)

lemma rivers_find_start [simp]: "rivers (find_start width height v) = rivers v"
  by (induction width height v rule: find_start.induct) (subst find_start.simps, simp)

lemma rivers_walk_body [simp]: "rivers (walk_body width height v) = rivers v"
  by (simp add: walk_body_def Let_def)

lemma rivers_walk [simp]: "rivers (walk width height v) = rivers v"
  by (induction width height v rule: walk.induct) (subst walk.simps, simp)

lemma find_start_exit: "\<not> search_again width height (find_start width height v)"
  by (induction width height v rule: find_start.induct) (subst find_start.simps, simp)

lemma successively_nth:
  "successively P xs \<Longrightarrow> Suc i < length xs \<Longrightarrow> P (xs ! i) (xs ! Suc i)"
  by (induction P xs arbitrary: i rule: successively.induct)
     (auto simp: nth_Cons split: nat.splits)

lemma getHeight_in_bounds:
  "\<not> out_of_bounds width height x y \<Longrightarrow>
     getHeight nm width height x y = array_get nm (getIndex width x y)"
  by (auto simp: out_of_bounds_def getHeight_def)

lemma walk_body_inv:
  assumes inv: "walk_inv width height v" and run: "\<not> terminated v"
  shows "walk_inv width height (walk_body width height v)"
proof -
  define low where "low = lowest_neighbor (noiseMap v) width height (currentX v) (currentY v)"
  define lx where "lx = fst low"
  define ly where "ly = fst (snd low)"
  have ok: "low_ok (noiseMap v) width height (currentX v) (currentY v) low"
    unfolding low_def by (rule low_ok_lowest_neighbor)
  have cur: "\<not> out_of_bounds width height (currentX v) (currentY v)"
    "last (river v) = getIndex width (currentX v) (currentY v)"
    using inv run by (auto simp: walk_inv_def)
  show ?thesis
  proof (cases "(lx = currentX v \<and> ly = currentY v) \<or> out_of_bounds width height lx ly
                 \<or> getIndex width lx ly \<in> set (river v)")
    case True
    then show ?thesis
      using inv by (auto simp: walk_body_def Let_def walk_inv_def low_def lx_def ly_def)
  next
    case False
    then have moved: "\<not> (lx = currentX v \<and> ly = currentY v)"
      and inb: "\<not> out_of_bounds width height lx ly"
      and fresh: "getIndex width lx ly \<notin> set (river v)" by auto
    have wb: "walk_body width height v =
        v\<lparr>currentX := lx, currentY := ly, river := river v @ [getIndex width lx ly]\<rparr>"
      using moved inb fresh by (auto simp: walk_body_def Let_def low_def lx_def ly_def)
    have "js_less (snd (snd low)) (getHeight (noiseMap v) width height (currentX v) (currentY v))"
      and "snd (snd low) = getHeight (noiseMap v) width height lx ly"
      using ok moved by (auto simp: low_ok_def lx_def ly_def)
    then have less: "js_less (array_get (noiseMap v) (getIndex width lx ly))
                       (array_get (noiseMap v) (last (river v)))"
      using cur inb by (simp add: getHeight_in_bounds)
    have rng: "0 \<le> getIndex width lx ly \<and> getIndex width lx ly < width * height"
      using inb by (rule getIndex_in_range)
    show ?thesis
      using inv fresh less rng inb
      by (auto simp: wb walk_inv_def successively_append_iff)
  qed
qed

lemma walk_keeps_inv: "walk_inv width height v \<Longrightarrow> walk_inv width height (walk width height v)"
proof (induction width height v rule: walk.induct)
  case (1 width height v)
  show ?case
  proof (cases "\<not> terminated v \<and> length (river v) < 1000")
    case True
    then have "walk_inv width height (walk_body width height v)"
      using "1.prems" by (simp add: walk_body_inv)
    then have "walk_inv width height (walk width height (walk_body width height v))"
      using True "1.IH" by simp
    then show ?thesis using True by (subst walk.simps) simp
  next
    case False
    then show ?thesis using "1.prems" by (subst walk.simps) auto
  qed
qed

lemma start_in_bounds:
  assumes "\<not> search_again width height v" "attempts v < 100"
  shows "\<not> out_of_bounds width height (startX v) (startY v)"
  using assms by (auto simp: search_again_def out_of_bounds_def getHeight_def)

lemma river_attempt_rivers:
  "rivers (river_attempt width height minRiverLength v) = rivers v \<or>
   (\<exists>p. rivers (river_attempt width height minRiverLength v) = rivers v @ [p] \<and>
        good_path (noiseMap v) width height minRiverLength p)"
proof -
  define v1 where "v1 = (snd (random v))\<lparr>startX := random_below v width\<rparr>"
  define v2 where "v2 = (snd (random v1))\<lparr>startY := random_below v1 height\<rparr>"
  define v3 where "v3 = find_start width height (v2\<lparr>attempts := 0\<rparr>)"
  define v4 where "v4 = walk width height
                      (v3\<lparr>river := [getIndex width (startX v3) (startY v3)],
                          currentX := startX v3, currentY := startY v3,
                          terminated := False\<rparr>)"
  have ra: "river_attempt width height minRiverLength v =
      (if 100 \<le> attempts v3 then v3
       else if minRiverLength \<le> int (length (river v4))
            then v4\<lparr>rivers := rivers v4 @ [river v4]\<rparr> else v4)"
    by (simp add: river_attempt_def Let_def v1_def v2_def v3_def v4_def)
  have r3: "rivers v3 = rivers v" "noiseMap v3 = noiseMap v"
    by (simp_all add: v3_def v2_def v1_def)
  have r4: "rivers v4 = rivers v" "noiseMap v4 = noiseMap v"
    by (simp_all add: v4_def r3)
  show ?thesis
  proof (cases "100 \<le> attempts v3")
    case True
    then show ?thesis by (simp add: ra r3)
  next
    case False
    have "\<not> search_again width height v3" unfolding v3_def by (rule find_start_exit)
    then have inb: "\<not> out_of_bounds width height (startX v3) (startY v3)"
      using False by (intro start_in_bounds) auto
    have "walk_inv width height
            (v3\<lparr>river := [getIndex width (startX v3) (startY v3)],
                currentX := startX v3, currentY := startY v3, terminated := False\<rparr>)"
      using inb getIndex_in_range [OF inb] by (simp add: walk_inv_def)
    then have "walk_inv width height v4" unfolding v4_def by (rule walk_keeps_inv)
    then show ?thesis
      using False by (auto simp: ra r4 walk_inv_def good_path_def)
  qed
qed

lemma rivers_loop_good:
  "\<forall>p \<in> set (rivers v). good_path (noiseMap v) width height minRiverLength p \<Longrightarrow>
   \<forall>p \<in> set (rivers (rivers_loop width height riverCount minRiverLength r v)).
      good_path (noiseMap v) width height minRiverLength p"
proof (induction width height riverCount minRiverLength r v rule: rivers_loop.induct)
  case (1 width height riverCount minRiverLength r v)
  show ?case
  proof (cases "r < riverCount")
    case True
    have "\<forall>p \<in> set (rivers (river_attempt width height minRiverLength v)).
            good_path (noiseMap v) width height minRiverLength p"
      using river_attempt_rivers [of width height minRiverLength v] "1.prems" by auto
    then show ?thesis
      using True "1.IH" by (subst rivers_loop.simps) simp
  next
    case False
    then show ?thesis using "1.prems" by (subst rivers_loop.simps) simp
  qed
qed

lemma generateRivers_good:
  "p \<in> set (rivers (generateRivers nm width height seed riverCount minRiverLength)) \<Longrightarrow>
   good_path nm width height minRiverLength p"
  using rivers_loop_good [of "\<lparr>noiseMap = nm, state = createRandom seed, attempts = 0, rivers = [],
        startX = 0, startY = 0, river = [], currentX = 0, currentY = 0,
        terminated = False\<rparr>" width height minRiverLength riverCount 0]
  by (simp add: generateRivers_def)





lemma rivers_loop_split:
  "r \<le> n \<Longrightarrow> n \<le> n' \<Longrightarrow>
   rivers_loop width height n' m r v =
   rivers_loop width height n' m n (rivers_loop width height n m r v)"
proof (induction width height n m r v rule: rivers_loop.induct)
  case (1 width height n m r v)
  show ?case
  proof (cases "r < n")
    case True
    then have "rivers_loop width height n' m r v =
        rivers_loop width height n' m (r + 1) (river_attempt width height m v)"
      using "1.prems" by (subst rivers_loop.simps) simp
    also have "\<dots> = rivers_loop width height n' m n
        (rivers_loop width height n m (r + 1) (river_attempt width height m v))"
      using True "1.prems" by (intro "1.IH") auto
    also have "rivers_loop width height n m (r + 1) (river_attempt width height m v) =
        rivers_loop width height n m r v"
      using True by (subst (2) rivers_loop.simps) simp
    finally show ?thesis .
  next
    case False
    then have "r = n" using "1.prems" by simp
    then show ?thesis by (subst (3) rivers_loop.simps) simp
  qed
qed

lemma rivers_loop_extends:
  "\<exists>ps. rivers (rivers_loop width height n m r v) = rivers v @ ps"
proof (induction width height n m r v rule: rivers_loop.induct)
  case (1 width height n m r v)
  show ?case
  proof (cases "r < n")
    case True
    obtain ps where "rivers (rivers_loop width height n m (r + 1) (river_attempt width height m v))
        = rivers (river_attempt width height m v) @ ps"
      using "1.IH" [OF True] by blast
    moreover obtain qs where "rivers (river_attempt width height m v) = rivers v @ qs"
      using river_attempt_rivers [of width height m v] by auto
    ultimately show ?thesis using True by (subst rivers_loop.simps) simp
  next
    case False
    then show ?thesis by (subst rivers_loop.simps) simp
  qed
qed

section \<open>Running the generators on an input\<close>

text \<open>
  \<^verbatim>\<open>Math.floor(random() * n)\<close> in integer arithmetic, and the loops unfolded one round at a
  time: each premise of a step lemma computes one intermediate record.
\<close>

lemma random_below_eq: "random_below v n = (lcg (state v) * n) div 4294967296"
proof -
  have "random_value (lcg (state v)) * real_of_int n
      = real_of_int (lcg (state v) * n) / real_of_int 4294967296"
    by (simp add: random_value_def)
  then show ?thesis
    by (simp only: random_below_def random_def fst_conv floor_divide_of_int_eq)
qed

lemma snd_random: "snd (random v) = v\<lparr>state := lcg (state v)\<rparr>"
  by (simp add: random_def)


lemma sample_start_eq: "sample_start w h v =
   v\<lparr>state := lcg (lcg (state v)), startX := (lcg (state v) * w) div 4294967296,
     startY := (lcg (lcg (state v)) * h) div 4294967296, attempts := attempts v + 1\<rparr>"
  by (simp add: sample_start_def Let_def random_below_eq snd_random)

lemma find_start_step:
  "sample_start w h v = v' \<Longrightarrow>
   find_start w h v = (if search_again w h v' then find_start w h v' else v')"
  by (subst find_start.simps) simp

lemma river_attempt_step:
  "find_start w h
     ((snd (random ((snd (random v))\<lparr>startX := random_below v w\<rparr>)))
        \<lparr>startY := random_below ((snd (random v))\<lparr>startX := random_below v w\<rparr>) h,
         attempts := 0\<rparr>) = v3 \<Longrightarrow>
   walk w h (v3\<lparr>river := [getIndex w (startX v3) (startY v3)],
                currentX := startX v3, currentY := startY v3, terminated := False\<rparr>) = v4 \<Longrightarrow>
   river_attempt w h m v =
     (if 100 \<le> attempts v3 then v3
      else if m \<le> int (length (river v4)) then v4\<lparr>rivers := rivers v4 @ [river v4]\<rparr>
      else v4)"
  by (auto simp: river_attempt_def Let_def)

lemma walk_body_step:
  "lowest_neighbor (noiseMap v) w h (currentX v) (currentY v) = (lx, ly, lh) \<Longrightarrow>
   walk_body w h v =
     (if lx = currentX v \<and> ly = currentY v then v\<lparr>terminated := True\<rparr>
      else if out_of_bounds w h lx ly
      then v\<lparr>currentX := lx, currentY := ly, terminated := True\<rparr>
      else if getIndex w lx ly \<in> set (river v)
      then v\<lparr>currentX := lx, currentY := ly, terminated := True\<rparr>
      else v\<lparr>currentX := lx, currentY := ly, river := river v @ [getIndex w lx ly]\<rparr>)"
  by (simp add: walk_body_def Let_def)

lemmas run_rivers = generateRivers_def createRandom_def rivers_loop.simps river_attempt_step
  find_start_step sample_start_eq random_below_eq snd_random lcg_def js_rem_def
  search_again_def getHeight_def array_get_def getIndex_def walk.simps walk_body_step
  lowest_neighbor_def neighbor_offsets_def neighbor_step_def out_of_bounds_def

lemma strip10_length: "length strip10 = 10"
  by (simp add: strip10_def)

lemma strip10_nth: "i < 10 \<Longrightarrow> strip10 ! i = (if i = 2 then Num 0.65 else Num 0.7)"
  by (simp add: strip10_def)


lemma strip100_length: "length strip100 = 100"
  by (simp add: strip100_def)

lemma strip100_nth: "i < 100 \<Longrightarrow> strip100 ! i = (if i = 37 then Num 0.7 else Num 0)"
  by (simp add: strip100_def)

text \<open>
  On the strip of ten cells with seed 123456 and \<^verbatim>\<open>minRiverLength\<close> 2, the five attempts
  start at the cells 1, 4, 9, 3 and 3. The attempts from 4 and 9 stay where they are and
  are dropped; the others flow to the cell 2.
\<close>

lemma strip10_three: "rivers (generateRivers strip10 10 1 123456 3 2) = [[1, 2]]"
  by (simp add: run_rivers strip10_length strip10_nth)

lemma strip10_five:
  "rivers (generateRivers strip10 10 1 123456 5 2) = [[1, 2], [3, 2], [3, 2]]"
  by (simp add: run_rivers strip10_length strip10_nth)

text \<open>
  On the strip of a hundred cells with seed 123456 the single attempt samples a hundred
  points; the variables after the call are these.
\<close>

lemma strip100_run:
  "generateRivers strip100 100 1 123456 1 1 =
     \<lparr>noiseMap = strip100, state = 2805849370, attempts = 100, rivers = [],
      startX = 37, startY = 0, river = [], currentX = 0, currentY = 0,
      terminated = False\<rparr>"
  by (simp add: run_rivers strip100_length strip100_nth)


section \<open>The claims about generateRivers\<close>

text \<open>
  Claim C3 (river monotonic descent). For every path that \<^verbatim>\<open>generateRivers\<close> returns and
  every two consecutive stored indices of it, the height at the later index is \<^verbatim>\<open><=\<close> the
  height at the earlier one. The code moves only to a strictly lower neighbour, so the
  later height is even \<^verbatim>\<open><\<close> the earlier one, and no step is exempt, the final one
  included. The heights are read from the array as the code reads them.
\<close>

theorem river_descent:
  assumes "p \<in> set (rivers (generateRivers nm width height seed riverCount minRiverLength))"
    and "Suc i < length p"
  shows "js_le (array_get nm (p ! Suc i)) (array_get nm (p ! i)) \<and>
         js_less (array_get nm (p ! Suc i)) (array_get nm (p ! i))"
proof -
  have "good_path nm width height minRiverLength p"
    using assms(1) by (rule generateRivers_good)
  then have "successively (\<lambda>a b. js_less (array_get nm b) (array_get nm a)) p"
    by (simp add: good_path_def)
  then have "js_less (array_get nm (p ! Suc i)) (array_get nm (p ! i))"
    using assms(2) by (rule successively_nth)
  then show ?thesis by (simp add: js_less_imp_le)
qed

theorem river_descent_witness:
  "[1, 2] \<in> set (rivers (generateRivers strip10 10 1 123456 5 2)) \<and>
   Suc 0 < length [1 :: int, 2] \<and>
   js_le (array_get strip10 ([1, 2] ! Suc 0)) (array_get strip10 ([1, 2] ! 0)) \<and>
   js_less (array_get strip10 ([1, 2] ! Suc 0)) (array_get strip10 ([1, 2] ! 0))"
proof -
  have a: "[1, 2] \<in> set (rivers (generateRivers strip10 10 1 123456 5 2))"
    by (simp add: strip10_five)
  have b: "Suc 0 < length [1 :: int, 2]" by simp
  show ?thesis using a b river_descent [OF a b] by simp
qed





text \<open>
  Claim C8 (five rivers against three), as amended. The run with \<^verbatim>\<open>riverCount\<close> 5 is the
  run with \<^verbatim>\<open>riverCount\<close> 3 followed by the attempts 3 and 4 on the variables that run
  leaves, so the output of the 3-river run is the beginning of the output of the 5-river
  run: the paths kept from the first three attempts of the 5-river run are the whole
  output of the 3-river run.
\<close>

theorem rivers_five_extend_three:
  "generateRivers nm width height seed 5 minRiverLength =
     rivers_loop width height 5 minRiverLength 3
       (generateRivers nm width height seed 3 minRiverLength) \<and>
   take (length (rivers (generateRivers nm width height seed 3 minRiverLength)))
     (rivers (generateRivers nm width height seed 5 minRiverLength)) =
   rivers (generateRivers nm width height seed 3 minRiverLength)"
proof -
  have a: "generateRivers nm width height seed 5 minRiverLength =
     rivers_loop width height 5 minRiverLength 3
       (generateRivers nm width height seed 3 minRiverLength)"
    unfolding generateRivers_def by (rule rivers_loop_split) auto
  obtain ps where
    "rivers (rivers_loop width height 5 minRiverLength 3
               (generateRivers nm width height seed 3 minRiverLength))
      = rivers (generateRivers nm width height seed 3 minRiverLength) @ ps"
    using rivers_loop_extends by blast
  then show ?thesis using a by simp
qed

text \<open>
  The claim as it is written fails on the strip of ten cells: the second and third
  attempts keep no path, so the first three paths of the 5-river run include those of
  the attempts 3 and 4, and the 3-river run returns one path only.
\<close>

theorem rivers_first_three_differ:
  "take 3 (rivers (generateRivers strip10 10 1 123456 5 2)) \<noteq>
   rivers (generateRivers strip10 10 1 123456 3 2)"
  by (simp add: strip10_five strip10_three)

text \<open>
  Claim C6 (start-point search), at an input where the code departs from it. On the strip
  of a hundred cells with seed 123456 the first 99 sampled points have height 0 and the
  hundredth is the cell 37, of height 0.7. The loop ends there with \<^verbatim>\<open>attempts\<close> at 100, the
  test \<^verbatim>\<open>attempts >= 100\<close> skips the attempt, and no path is returned, although a point
  with height in [0.6, 0.8] was sampled within the hundred attempts. The walk from that
  point, had it begun, stores the cells 37 and 36.
\<close>

theorem start_on_hundredth_sample_skipped:
  "attempts (generateRivers strip100 100 1 123456 1 1) = 100 \<and>
   startX (generateRivers strip100 100 1 123456 1 1) = 37 \<and>
   startY (generateRivers strip100 100 1 123456 1 1) = 0 \<and>
   getHeight strip100 100 1 37 0 = Num 0.7 \<and>
   rivers (generateRivers strip100 100 1 123456 1 1) = [] \<and>
   river (walk 100 1
            ((generateRivers strip100 100 1 123456 1 1)
               \<lparr>river := [getIndex 100 37 0], currentX := 37, currentY := 0,
                terminated := False\<rparr>)) = [37, 36]"
  unfolding strip100_run
  by (simp add: getHeight_def array_get_def getIndex_def strip100_length strip100_nth
      walk.simps walk_body_step lowest_neighbor_def neighbor_offsets_def neighbor_step_def
      out_of_bounds_def)

section \<open>Lemmas about placeCities\<close>

lemma cities_random [simp]: "cities (snd (random v)) = cities v"
  by (simp add: random_def)

lemma state_random [simp]: "state (snd (random v)) = lcg (state v)"
  by (simp add: random_def)

lemma noiseMap_place_attempt [simp]:
  "noiseMap (place_attempt riverPoints width height v) = noiseMap v"
  by (simp add: place_attempt_def Let_def)

lemma noiseMap_place_loop [simp]:
  "noiseMap (place_loop riverPoints width height cityCount v) = noiseMap v"
  by (induction riverPoints width height cityCount v rule: place_loop.induct)
     (subst place_loop.simps, simp)




















section \<open>The claims about placeCities\<close>







section \<open>The claim about the height field\<close>

text \<open>
  Claim C9 (the height field is not written). The variables of both functions hold the
  array \<^verbatim>\<open>noiseMap\<close> that the caller passes; after \<^verbatim>\<open>generateRivers\<close> and after
  \<^verbatim>\<open>placeCities\<close> the array is, element for element, the array that was passed.
\<close>

theorem height_field_unchanged:
  "noiseMap (generateRivers nm width height seed riverCount minRiverLength) = nm \<and>
   noiseMap (placeCities nm rvs width height seed cityCount) = nm"
  by (simp add: generateRivers_def placeCities_def)

section \<open>The claims about generateNoiseMap\<close>

lemma MIN_VALUE_pos: "0 < Number_MIN_VALUE"
  by (simp add: Number_MIN_VALUE_def)

lemma MAX_VALUE_ge_1: "1 \<le> Number_MAX_VALUE"
proof -
  have "(1 :: real) \<le> 2 ^ 53 - 1" by simp
  moreover have "(1 :: real) \<le> 2 ^ 971" by (rule one_le_power) simp
  ultimately have "(1 :: real) * 1 \<le> (2 ^ 53 - 1) * 2 ^ 971"
    by (intro mult_mono) auto
  then show ?thesis by (simp add: Number_MAX_VALUE_def)
qed

lemma MIN_VALUE_le_half: "Number_MIN_VALUE \<le> 1 / 2"
proof -
  have "(2 :: real) ^ 1 \<le> 2 ^ 1074" by (rule power_increasing) auto
  then have "1 / (2 :: real) ^ 1074 \<le> 1 / 2 ^ 1" by (intro divide_left_mono) auto
  then show ?thesis by (simp add: Number_MIN_VALUE_def)
qed

lemmas run_noise = raw_noise_def Let_def createRandom_def grid_cells_def cell_step_def
  lcg_def js_rem_def random_value_def

text \<open>
  A grid of two cells, one octave, scale 1 and seed 123456: the offset of the octave is
  about 8174.04, so the two cells are sampled on the two sides of 8175 and the raw heights
  are -1/2 and -1/4. The tracked maximum starts at \<^verbatim>\<open>Number.MIN_VALUE\<close>, which is positive,
  and stays there.
\<close>

lemma step_raw:
  "raw_noise (step_noise 8175) 2 1 123456 1 1 (1 / 2) 2 =
     ([- 1 / 2, - 1 / 4], Number_MIN_VALUE, - 1 / 2)"
  using MIN_VALUE_pos MAX_VALUE_ge_1
  by (simp add: run_noise step_noise_def numeral_2_eq_2 upt_rec max_def min_def)

text \<open>A grid of one cell with the raw height 1/2: the tracked maximum and minimum are both 1/2.\<close>

lemma constant_raw:
  "raw_noise (constant_noise (1 / 2)) 1 1 123456 100 1 (1 / 2) 2 = ([1 / 2], 1 / 2, 1 / 2)"
  using MIN_VALUE_le_half MAX_VALUE_ge_1
  by (simp add: run_noise constant_noise_def max_def min_def)

text \<open>
  Claim C1 (normalization), at an input where the code departs from it. When no raw
  height is positive the tracked maximum is \<^verbatim>\<open>Number.MIN_VALUE\<close> and not the largest raw
  height. For the raw heights -1/2 and -1/4 the field returned has the cells 0 and
  \<^verbatim>\<open>(1/4) / (Number.MIN_VALUE + 1/2)\<close>, which is below 1/2: the raw field is not constant,
  and the maximum of the field is not 1.
\<close>

theorem negative_field_maximum_below_one:
  "generateNoiseMap (step_noise 8175) 2 1 123456 1 1 (1 / 2) 2 =
     [Num 0, Num ((1 / 4) / (Number_MIN_VALUE + 1 / 2))] \<and>
   (1 / 4) / (Number_MIN_VALUE + 1 / 2) < (1 / 2 :: real)"
  unfolding generateNoiseMap_def Let_def step_raw
  using MIN_VALUE_pos
  by (simp add: js_div_def field_simps)

text \<open>
  Claim C2 (constant raw field), at an input where the code departs from it. For a grid
  of one cell with the raw height 1/2 the tracked minimum equals the tracked maximum; the
  second pass divides 0 by 0, and the cell of the field returned is \<^verbatim>\<open>NaN\<close>, not 0.
\<close>

theorem constant_field_divides_by_zero:
  "fst (snd (raw_noise (constant_noise (1 / 2)) 1 1 123456 100 1 (1 / 2) 2)) =
   snd (snd (raw_noise (constant_noise (1 / 2)) 1 1 123456 100 1 (1 / 2) 2)) \<and>
   generateNoiseMap (constant_noise (1 / 2)) 1 1 123456 100 1 (1 / 2) 2 = [NaN]"
  unfolding generateNoiseMap_def Let_def constant_raw
  by (simp add: js_div_def)

end
